theory Spec2Isabelle
  imports Main "HOL-Library.Word"
begin

unbundle bit_operations_syntax

section \<open>Record layouts (shared-memory data definitions)\<close>

type_synonym u8 = "8 word"
type_synonym u16 = "16 word"
type_synonym u32 = "32 word"

subsection \<open>Liveness constants\<close>

text \<open>\<^verbatim>\<open>inline constexpr const int64_t AliveTimeThresholdSound = 5000;\<close>\<close>

definition AliveTimeThresholdSound :: int where
  "AliveTimeThresholdSound = 5000"

text \<open>\<^verbatim>\<open>inline constexpr const int64_t AliveTimeMargin = 500;\<close>\<close>

definition AliveTimeMargin :: int where
  "AliveTimeMargin = 500"

text \<open>
  Modelled from the spec: the reader-side liveness predicate. The repository's files only
  declare the two constants above; the comparison itself lives in the agents that consume
  the record. The spec words it as
  \<^verbatim>\<open>aliveness = (now - heartbeat) < (threshold + margin)\<close>.
\<close>

definition aliveness :: "int \<Rightarrow> int \<Rightarrow> int \<Rightarrow> int \<Rightarrow> bool" where
  "aliveness threshold margin now heartbeat \<longleftrightarrow> now - heartbeat < threshold + margin"

subsection \<open>GPS option flags\<close>

text \<open>
  \<^verbatim>\<open>enum class GpsOption : uint8_t { NONE = 0, USE_RTK = 1 << 0, USE_DR = 1 << 1,
  IMU_SAVE = 1 << 2, IMU_RESTORE = 1 << 3 };\<close>
\<close>

datatype GpsOption = NONE | USE_RTK | USE_DR | IMU_SAVE | IMU_RESTORE

text \<open>\<^verbatim>\<open>static_cast<uint8_t>(target)\<close>: the enumerator's value as written in the source.\<close>

fun GpsOption_value :: "GpsOption \<Rightarrow> u8" where
  "GpsOption_value NONE = 0"
| "GpsOption_value USE_RTK = push_bit 0 1"
| "GpsOption_value USE_DR = push_bit 1 1"
| "GpsOption_value IMU_SAVE = push_bit 2 1"
| "GpsOption_value IMU_RESTORE = push_bit 3 1"

text \<open>
  The position of the flag bit an enumerator names; \<open>NONE\<close> names no bit.
\<close>

fun GpsOption_bit :: "GpsOption \<Rightarrow> nat option" where
  "GpsOption_bit NONE = None"
| "GpsOption_bit USE_RTK = Some 0"
| "GpsOption_bit USE_DR = Some 1"
| "GpsOption_bit IMU_SAVE = Some 2"
| "GpsOption_bit IMU_RESTORE = Some 3"

text \<open>
  \<^verbatim>\<open>inline bool HasGpsOption(uint8_t currentOptions, GpsOption target) {
      return (currentOptions & static_cast<uint8_t>(target)) != 0; }\<close>
\<close>

definition HasGpsOption :: "u8 \<Rightarrow> GpsOption \<Rightarrow> bool" where
  "HasGpsOption currentOptions target \<longleftrightarrow> (currentOptions AND GpsOption_value target) \<noteq> 0"

subsection \<open>Device configuration\<close>

text \<open>
  C strings: \<open>NUL\<close> is the terminator, and \<open>c_str\<close> reads a byte sequence as a C
  string, that is, up to (not including) its first terminator.
\<close>

definition NUL :: char where
  "NUL = CHR 0x00"

definition c_str :: "char list \<Rightarrow> char list" where
  "c_str bytes = takeWhile (\<lambda>c. c \<noteq> NUL) bytes"

text \<open>
  \<^verbatim>\<open>strncpy(dst, src, n)\<close>: copies the characters of the C string \<open>src\<close>, at most
  \<open>n\<close> of them, to the start of \<open>dst\<close>, and fills what is left of the first \<open>n\<close>
  bytes with terminators. Bytes of \<open>dst\<close> from index \<open>n\<close> on are kept. Were \<open>n\<close>
  larger than the destination, the result would be longer than \<open>dst\<close>: the model makes an
  overflow visible as a change of length.
\<close>

definition strncpy :: "char list \<Rightarrow> char list \<Rightarrow> nat \<Rightarrow> char list" where
  "strncpy dst src n =
     (let copied = take n (c_str src)
      in copied @ replicate (n - length copied) NUL @ drop n dst)"

text \<open>
  \<^verbatim>\<open>memset(dst, v, n)\<close>: the first \<open>n\<close> bytes of \<open>dst\<close> become \<open>v\<close>, the rest
  are kept; an \<open>n\<close> beyond the destination would again show as a longer result.
\<close>

definition memset :: "'a list \<Rightarrow> 'a \<Rightarrow> nat \<Rightarrow> 'a list" where
  "memset dst v n = replicate n v @ drop n dst"

text \<open>
  \<^verbatim>\<open>struct DeviceConfig { char port[32]; uint32_t baudrate; uint16_t update_rate_hz;
  uint8_t option; uint8_t type; bool enabled; uint8_t reserved[4]; ... };\<close>
\<close>

record DeviceConfig =
  port :: "char list"
  baudrate :: u32
  update_rate_hz :: u16
  option :: u8
  type :: u8
  enabled :: bool
  reserved :: "u8 list"

text \<open>\<^verbatim>\<open>sizeof(port)\<close> and \<^verbatim>\<open>sizeof(reserved)\<close>\<close>

definition sizeof_port :: nat where
  "sizeof_port = 32"

definition sizeof_reserved :: nat where
  "sizeof_reserved = 4"

text \<open>
  The constructor runs on memory that already holds some bytes (the argument): it sets
  the scalar fields from its initialiser list, writes \<^verbatim>\<open>port[0] = '\0'\<close> and
  clears \<open>reserved\<close> with \<^verbatim>\<open>memset(reserved, 0, sizeof(reserved))\<close>. The other 31
  bytes of \<open>port\<close> are not written.
\<close>

definition DeviceConfig_ctor :: "DeviceConfig \<Rightarrow> DeviceConfig" where
  "DeviceConfig_ctor mem =
     \<lparr> port = (port mem)[0 := NUL],
       baudrate = 115200,
       update_rate_hz = 10,
       option = 0,
       type = 1,
       enabled = False,
       reserved = memset (reserved mem) 0 sizeof_reserved \<rparr>"

text \<open>
  \<^verbatim>\<open>void setPort(const char* p) {
      std::strncpy(port, p, sizeof(port) - 1);
      port[sizeof(port) - 1] = '\0'; }\<close>
\<close>

definition setPort :: "DeviceConfig \<Rightarrow> char list \<Rightarrow> DeviceConfig" where
  "setPort d p =
     (let copied = strncpy (port d) p (sizeof_port - 1)
      in d\<lparr>port := copied[sizeof_port - 1 := NUL]\<rparr>)"

text \<open>
  \<^verbatim>\<open>struct DeviceConfigTable { DeviceConfig gps; DeviceConfig imu;
  std::atomic<bool> ready; struct AgentStatus { std::atomic<bool> gps_ready;
  std::atomic<bool> imu_ready; } status; ... };\<close>
\<close>

record AgentStatus =
  gps_ready :: bool
  imu_ready :: bool

record DeviceConfigTable =
  gps :: DeviceConfig
  imu :: DeviceConfig
  ready :: bool
  status :: AgentStatus

text \<open>
  \<^verbatim>\<open>DeviceConfigTable() : ready(false) {
      status.gps_ready.store(false); status.imu_ready.store(false); }\<close>
  The two \<open>DeviceConfig\<close> members are default-constructed in place.
\<close>

definition DeviceConfigTable_ctor :: "DeviceConfigTable \<Rightarrow> DeviceConfigTable" where
  "DeviceConfigTable_ctor mem =
     \<lparr> gps = DeviceConfig_ctor (gps mem),
       imu = DeviceConfig_ctor (imu mem),
       ready = False,
       status = \<lparr> gps_ready = False, imu_ready = False \<rparr> \<rparr>"

text \<open>
  A well-formed image of a \<open>DeviceConfig\<close> in memory: the arrays have their declared
  sizes.
\<close>

definition DeviceConfig_layout :: "DeviceConfig \<Rightarrow> bool" where
  "DeviceConfig_layout d \<longleftrightarrow> length (port d) = sizeof_port \<and> length (reserved d) = sizeof_reserved"

text \<open>Memory as \<^verbatim>\<open>ftruncate\<close> leaves a new object: every byte zero.\<close>

definition zeroed_DeviceConfig :: DeviceConfig where
  "zeroed_DeviceConfig =
     \<lparr> port = replicate 32 NUL, baudrate = 0, update_rate_hz = 0, option = 0, type = 0,
       enabled = False, reserved = replicate 4 0 \<rparr>"

definition zeroed_DeviceConfigTable :: DeviceConfigTable where
  "zeroed_DeviceConfigTable =
     \<lparr> gps = zeroed_DeviceConfig, imu = zeroed_DeviceConfig, ready = False,
       status = \<lparr> gps_ready = False, imu_ready = False \<rparr> \<rparr>"

section \<open>The operating system's shared-memory objects\<close>

text \<open>
  What \<^verbatim>\<open>shm_open\<close>, \<^verbatim>\<open>shm_unlink\<close>, \<^verbatim>\<open>ftruncate\<close>, \<^verbatim>\<open>mmap\<close>,
  \<^verbatim>\<open>munmap\<close> and \<^verbatim>\<open>close\<close> act on. A shared-memory object has a size and the
  bytes of its first \<^verbatim>\<open>sizeof(T)\<close> positions, read as a record of type \<open>'r\<close>; bytes
  that an object gains when it grows read as zero. Objects are numbered in the order of
  their creation and stay in the store; a name, a descriptor or a mapping refers to an
  object by its number.
\<close>

type_synonym obj_id = nat

record 'r shm_object =
  obj_size :: nat
  obj_data :: 'r

record 'r os_state =
  shm_names :: "string \<rightharpoonup> obj_id"
  shm_objects :: "'r shm_object list"
  open_fds :: "(nat \<times> obj_id) list"
  mappings :: "(nat \<times> obj_id) list"

text \<open>
  What a constructor throws: an object of a class derived from \<^verbatim>\<open>std::exception\<close>,
  or anything else.
\<close>

datatype thrown = Std_exception | Other_throw

text \<open>
  The record type \<open>T\<close> a container is instantiated with: \<^verbatim>\<open>sizeof(T)\<close>, the value
  that zero-filled memory reads as, the default constructor \<^verbatim>\<open>T()\<close> run on memory
  with given contents (\<open>None\<close> when it throws), and what it throws when it does.
\<close>

record 'r record_type =
  sizeof_T :: nat
  T_zero :: 'r
  T_ctor :: "'r \<Rightarrow> 'r option"
  T_thrown :: "'r \<Rightarrow> thrown"

text \<open>
  System calls can fail for reasons outside the program (limits, permissions, memory):
  each call of \<open>create\<close> or \<open>open\<close> is given which of its calls fail that way.
\<close>

record faults =
  fail_shm_open :: bool
  fail_ftruncate :: bool
  fail_mmap :: bool

definition no_faults :: faults where
  "no_faults = \<lparr> fail_shm_open = False, fail_ftruncate = False, fail_mmap = False \<rparr>"

text \<open>The lowest number from \<open>lo\<close> on that is not in use (descriptors, addresses).\<close>

definition lowest_free :: "nat \<Rightarrow> nat list \<Rightarrow> nat" where
  "lowest_free lo used = hd (filter (\<lambda>n. n \<notin> set used) [lo ..< lo + Suc (length used)])"

definition empty_os :: "'r os_state" where
  "empty_os = \<lparr> shm_names = Map.empty, shm_objects = [], open_fds = [], mappings = [] \<rparr>"

text \<open>\<^verbatim>\<open>shm_unlink(name)\<close>: removes the name; \<open>-1\<close> when there is no such name.\<close>

definition shm_unlink :: "'r os_state \<Rightarrow> string \<Rightarrow> int \<times> 'r os_state" where
  "shm_unlink os name =
     (case shm_names os name of
        None \<Rightarrow> (- 1, os)
      | Some obj \<Rightarrow> (0, os\<lparr>shm_names := (shm_names os)(name := None)\<rparr>))"

text \<open>
  \<^verbatim>\<open>shm_open(name, O_RDWR, 0666)\<close> and, with \<open>o_creat\<close>,
  \<^verbatim>\<open>shm_open(name, O_CREAT | O_RDWR, 0666)\<close>: a new descriptor for the object of that
  name; with \<open>o_creat\<close> a missing object is created first, empty. Otherwise \<open>-1\<close>.
\<close>

definition shm_open :: "'r record_type \<Rightarrow> 'r os_state \<Rightarrow> bool \<Rightarrow> string \<Rightarrow> bool \<Rightarrow> int \<times> 'r os_state" where
  "shm_open tp os fails name o_creat =
     (if fails then (- 1, os)
      else
        let fd = lowest_free 0 (map fst (open_fds os)) in
        case shm_names os name of
          Some obj \<Rightarrow> (int fd, os\<lparr>open_fds := (fd, obj) # open_fds os\<rparr>)
        | None \<Rightarrow>
            if o_creat then
              let obj = length (shm_objects os) in
              (int fd,
               os\<lparr>shm_names := (shm_names os)(name \<mapsto> obj),
                  shm_objects := shm_objects os @ [\<lparr>obj_size = 0, obj_data = T_zero tp\<rparr>],
                  open_fds := (fd, obj) # open_fds os\<rparr>)
            else (- 1, os))"

text \<open>The object an open descriptor refers to.\<close>

definition fd_object :: "'r os_state \<Rightarrow> int \<Rightarrow> obj_id option" where
  "fd_object os fd = (if fd < 0 then None else map_of (open_fds os) (nat fd))"

text \<open>
  \<^verbatim>\<open>ftruncate(fd, sizeof(T))\<close>: sets the object's size. An object that did not have that
  size reads as zeros afterwards (it was empty before).
\<close>

definition ftruncate :: "'r record_type \<Rightarrow> 'r os_state \<Rightarrow> bool \<Rightarrow> int \<Rightarrow> int \<times> 'r os_state" where
  "ftruncate tp os fails fd =
     (if fails then (- 1, os)
      else
        case fd_object os fd of
          None \<Rightarrow> (- 1, os)
        | Some obj \<Rightarrow>
            let old = shm_objects os ! obj;
                new = \<lparr>obj_size = sizeof_T tp,
                       obj_data = (if obj_size old = sizeof_T tp then obj_data old else T_zero tp)\<rparr>
            in (0, os\<lparr>shm_objects := (shm_objects os)[obj := new]\<rparr>))"

text \<open>
  \<^verbatim>\<open>mmap(NULL, sizeof(T), PROT_READ | PROT_WRITE, MAP_SHARED, fd, 0)\<close>: a new mapping
  of the descriptor's object at an address that is not in use (never the null address
  \<open>0\<close>); \<open>None\<close> stands for \<^verbatim>\<open>MAP_FAILED\<close>.
\<close>

definition mmap :: "'r os_state \<Rightarrow> bool \<Rightarrow> int \<Rightarrow> nat option \<times> 'r os_state" where
  "mmap os fails fd =
     (if fails then (None, os)
      else
        case fd_object os fd of
          None \<Rightarrow> (None, os)
        | Some obj \<Rightarrow>
            let addr = lowest_free 1 (map fst (mappings os))
            in (Some addr, os\<lparr>mappings := (addr, obj) # mappings os\<rparr>))"

text \<open>\<^verbatim>\<open>munmap(addr, sizeof(T))\<close> and \<^verbatim>\<open>::close(fd)\<close>.\<close>

definition munmap :: "'r os_state \<Rightarrow> nat \<Rightarrow> 'r os_state" where
  "munmap os addr = os\<lparr>mappings := filter (\<lambda>(a, obj). a \<noteq> addr) (mappings os)\<rparr>"

definition sys_close :: "'r os_state \<Rightarrow> int \<Rightarrow> 'r os_state" where
  "sys_close os fd =
     (if fd < 0 then os
      else os\<lparr>open_fds := filter (\<lambda>(k, obj). k \<noteq> nat fd) (open_fds os)\<rparr>)"

text \<open>
  \<^verbatim>\<open>new (ptr) T()\<close>: runs the constructor on the bytes of the object mapped at \<open>ptr\<close>
  and stores the record it builds there (\<open>Inr\<close>, with the new state); when the
  constructor throws, the result is what it throws (\<open>Inl\<close>) and the object is taken as
  not written. \<open>create\<close> only calls it with the address \<open>mapMemory\<close> has just
  obtained; at an address with no mapping nothing is stored.
\<close>

definition placement_new :: "'r record_type \<Rightarrow> 'r os_state \<Rightarrow> nat \<Rightarrow> thrown + 'r os_state" where
  "placement_new tp os ptr =
     (case map_of (mappings os) ptr of
        None \<Rightarrow> Inr os
      | Some obj \<Rightarrow>
          let old = shm_objects os ! obj in
          case T_ctor tp (obj_data old) of
            None \<Rightarrow> Inl (T_thrown tp (obj_data old))
          | Some r \<Rightarrow> Inr (os\<lparr>shm_objects := (shm_objects os)[obj := old\<lparr>obj_data := r\<rparr>]\<rparr>))"

section \<open>The typed state container \<open>SharedState<T>\<close>\<close>

text \<open>
  \<^verbatim>\<open>int shm_fd_; T* data_ptr_; bool is_owner_; std::string shm_name_;\<close>
  The fields keep their names without the trailing underscore; the pointer is an address,
  \<open>0\<close> for \<^verbatim>\<open>nullptr\<close>.
\<close>

record handle =
  shm_fd :: int
  data_ptr :: nat
  is_owner :: bool
  shm_name :: string

text \<open>
  \<^verbatim>\<open>SharedState() : shm_fd_(-1), data_ptr_(nullptr), is_owner_(false), shm_name_("") {}\<close>
\<close>

definition SharedState :: handle where
  "SharedState = \<lparr> shm_fd = - 1, data_ptr = 0, is_owner = False, shm_name = [] \<rparr>"

text \<open>
  How a call of \<open>create\<close> or \<open>open\<close> ends: it returns \<open>true\<close>, or it returns
  \<open>false\<close> after the diagnostic it prints for the step that failed, or it does not
  return because an exception leaves it (\<open>Uncaught\<close>). The \<^verbatim>\<open>catch\<close> clauses are
  \<^verbatim>\<open>catch (const std::exception& e)\<close>, so that is the end of a call in which
  something else is thrown.
\<close>

datatype error = InvalidName | ShmOpenFailed | FtruncateFailed | MmapFailed | Exception

datatype outcome = Success | Failure error | Uncaught

text \<open>
  \<^verbatim>\<open>bool validateName(const std::string& name) {
      if (name.empty() || name[0] != '/') { ...; return false; }
      return true; }\<close>
\<close>

definition validateName :: "string \<Rightarrow> bool" where
  "validateName name = (if name = [] \<or> hd name \<noteq> CHR ''/'' then False else True)"

text \<open>
  \<^verbatim>\<open>void cleanup() {
      if (data_ptr_) { munmap(data_ptr_, sizeof(T)); data_ptr_ = nullptr; }
      if (shm_fd_ >= 0) { ::close(shm_fd_); shm_fd_ = -1; }
      if (is_owner_ && !shm_name_.empty()) { shm_unlink(shm_name_.c_str()) ... } }\<close>
  The result of \<^verbatim>\<open>shm_unlink\<close> only selects the message that is logged.
\<close>

definition cleanup :: "handle \<Rightarrow> 'r os_state \<Rightarrow> handle \<times> 'r os_state" where
  "cleanup h os =
     (let (h1, os1) =
            (if data_ptr h \<noteq> 0 then (h\<lparr>data_ptr := 0\<rparr>, munmap os (data_ptr h)) else (h, os));
          (h2, os2) =
            (if 0 \<le> shm_fd h1 then (h1\<lparr>shm_fd := - 1\<rparr>, sys_close os1 (shm_fd h1))
             else (h1, os1));
          os3 =
            (if is_owner h2 \<and> shm_name h2 \<noteq> [] then snd (shm_unlink os2 (shm_name h2))
             else os2)
      in (h2, os3))"

text \<open>
  \<^verbatim>\<open>bool handleInternalError(const std::string& msg) { ...; cleanup(); return false; }\<close>
\<close>

definition handleInternalError :: "handle \<Rightarrow> 'r os_state \<Rightarrow> bool \<times> handle \<times> 'r os_state" where
  "handleInternalError h os = (let (h', os') = cleanup h os in (False, h', os'))"

text \<open>
  \<^verbatim>\<open>bool mapMemory() {
      void* ptr = mmap(NULL, sizeof(T), PROT_READ | PROT_WRITE, MAP_SHARED, shm_fd_, 0);
      if (ptr == MAP_FAILED) return handleInternalError("mmap");
      data_ptr_ = static_cast<T*>(ptr);
      return true; }\<close>
\<close>

definition mapMemory :: "bool \<Rightarrow> handle \<Rightarrow> 'r os_state \<Rightarrow> bool \<times> handle \<times> 'r os_state" where
  "mapMemory fails h os =
     (case mmap os fails (shm_fd h) of
        (None, os') \<Rightarrow> handleInternalError h os'
      | (Some ptr, os') \<Rightarrow> (True, h\<lparr>data_ptr := ptr\<rparr>, os'))"

text \<open>
  \<^verbatim>\<open>bool create(const std::string& shm_name)\<close>, step by step as the source has it:
  name check, \<^verbatim>\<open>shm_name_ = shm_name\<close>, \<^verbatim>\<open>shm_unlink\<close>, \<^verbatim>\<open>shm_open\<close> with
  \<^verbatim>\<open>O_CREAT\<close>, \<^verbatim>\<open>ftruncate\<close> (on failure the descriptor is closed by hand),
  \<open>mapMemory\<close>, placement new, \<^verbatim>\<open>is_owner_ = true\<close>. The \<^verbatim>\<open>catch\<close> block, reached
  when the constructor throws a \<^verbatim>\<open>std::exception\<close>, calls \<open>cleanup\<close> and returns
  false. Anything else the constructor throws passes through \<open>create\<close>: the handle and
  the system stay as they are at the throw.
\<close>

definition SharedState_create ::
  "'r record_type \<Rightarrow> faults \<Rightarrow> handle \<Rightarrow> 'r os_state \<Rightarrow> string \<Rightarrow> outcome \<times> handle \<times> 'r os_state" where
  "SharedState_create tp flt h os name =
     (if validateName name = False then (Failure InvalidName, h, os)
      else
        let h1 = h\<lparr>shm_name := name\<rparr>;
            os1 = snd (shm_unlink os (shm_name h1));
            (fd, os2) = shm_open tp os1 (fail_shm_open flt) (shm_name h1) True;
            h2 = h1\<lparr>shm_fd := fd\<rparr>
        in
          if shm_fd h2 < 0 then (Failure ShmOpenFailed, h2, os2)
          else
            let (rc, os3) = ftruncate tp os2 (fail_ftruncate flt) (shm_fd h2) in
            if rc < 0 then
              (Failure FtruncateFailed, h2\<lparr>shm_fd := - 1\<rparr>, sys_close os3 (shm_fd h2))
            else
              let (mapped, h3, os4) = mapMemory (fail_mmap flt) h2 os3 in
              if mapped = False then (Failure MmapFailed, h3, os4)
              else
                case (if data_ptr h3 \<noteq> 0 then placement_new tp os4 (data_ptr h3)
                      else Inr os4) of
                  Inl Std_exception \<Rightarrow>
                    (let (h4, os5) = cleanup h3 os4 in (Failure Exception, h4, os5))
                | Inl Other_throw \<Rightarrow> (Uncaught, h3, os4)
                | Inr os5 \<Rightarrow> (Success, h3\<lparr>is_owner := True\<rparr>, os5))"

text \<open>
  \<^verbatim>\<open>bool open(const std::string& shm_name)\<close>: name check,
  \<^verbatim>\<open>shm_name_ = shm_name\<close>, \<^verbatim>\<open>shm_open\<close> without \<^verbatim>\<open>O_CREAT\<close>, \<open>mapMemory\<close>,
  \<^verbatim>\<open>is_owner_ = false\<close>. Nothing in its \<^verbatim>\<open>try\<close> block throws.
\<close>

definition SharedState_open ::
  "'r record_type \<Rightarrow> faults \<Rightarrow> handle \<Rightarrow> 'r os_state \<Rightarrow> string \<Rightarrow> outcome \<times> handle \<times> 'r os_state" where
  "SharedState_open tp flt h os name =
     (if validateName name = False then (Failure InvalidName, h, os)
      else
        let h1 = h\<lparr>shm_name := name\<rparr>;
            (fd, os1) = shm_open tp os (fail_shm_open flt) (shm_name h1) False;
            h2 = h1\<lparr>shm_fd := fd\<rparr>
        in
          if shm_fd h2 < 0 then (Failure ShmOpenFailed, h2, os1)
          else
            let (mapped, h3, os2) = mapMemory (fail_mmap flt) h2 os1 in
            if mapped = False then (Failure MmapFailed, h3, os2)
            else (Success, h3\<lparr>is_owner := False\<rparr>, os2))"

text \<open>\<^verbatim>\<open>void close() { cleanup(); }\<close>; the destructor does the same.\<close>

definition SharedState_close :: "handle \<Rightarrow> 'r os_state \<Rightarrow> handle \<times> 'r os_state" where
  "SharedState_close h os = cleanup h os"

text \<open>\<^verbatim>\<open>bool isInitialized() const { return data_ptr_ != nullptr; }\<close>\<close>

definition isInitialized :: "handle \<Rightarrow> bool" where
  "isInitialized h \<longleftrightarrow> data_ptr h \<noteq> 0"

text \<open>
  \<^verbatim>\<open>const T& operator*() const { return *data_ptr_; }\<close>: the record read through the
  handle. \<open>None\<close> where the read has no defined result: a null pointer, an address that
  is not mapped, or an object too small to hold a \<open>T\<close>.
\<close>

definition deref :: "'r record_type \<Rightarrow> 'r os_state \<Rightarrow> handle \<Rightarrow> 'r option" where
  "deref tp os h =
     (if data_ptr h = 0 then None
      else
        case map_of (mappings os) (data_ptr h) of
          None \<Rightarrow> None
        | Some obj \<Rightarrow>
            if obj < length (shm_objects os) \<and> sizeof_T tp \<le> obj_size (shm_objects os ! obj)
            then Some (obj_data (shm_objects os ! obj))
            else None)"

text \<open>
  A handle's life: a sequence of calls on it, each \<open>create\<close> and \<open>open\<close> with the faults
  the system injects into it. Beside the handle and the system state, a run keeps which
  call last attached the handle successfully. A call that an exception leaves counts as
  not successful; the run goes on with the handle as the throw left it.
\<close>

datatype attach = By_create | By_open

datatype call = Create string faults | Open string faults | Close

fun step ::
  "'r record_type \<Rightarrow> handle \<times> 'r os_state \<times> attach option \<Rightarrow> call \<Rightarrow>
   handle \<times> 'r os_state \<times> attach option" where
  "step tp (h, os, att) (Create name flt) =
     (case SharedState_create tp flt h os name of
        (Success, h', os') \<Rightarrow> (h', os', Some By_create)
      | (Failure e, h', os') \<Rightarrow> (h', os', att)
      | (Uncaught, h', os') \<Rightarrow> (h', os', att))"
| "step tp (h, os, att) (Open name flt) =
     (case SharedState_open tp flt h os name of
        (Success, h', os') \<Rightarrow> (h', os', Some By_open)
      | (Failure e, h', os') \<Rightarrow> (h', os', att)
      | (Uncaught, h', os') \<Rightarrow> (h', os', att))"
| "step tp (h, os, att) Close =
     (case SharedState_close h os of (h', os') \<Rightarrow> (h', os', att))"

definition run ::
  "'r record_type \<Rightarrow> 'r os_state \<Rightarrow> call list \<Rightarrow> handle \<times> 'r os_state \<times> attach option" where
  "run tp os calls = foldl (step tp) (SharedState, os, None) calls"

text \<open>
  The owner flag agrees with the run's record: it is set exactly when the last call that
  attached the handle was a \<open>create\<close>.
\<close>

definition owner_inv :: "handle \<times> 'r os_state \<times> attach option \<Rightarrow> bool" where
  "owner_inv s \<longleftrightarrow> (case s of (h, os, att) \<Rightarrow> is_owner h = (att = Some By_create))"

section \<open>The device table in a container\<close>

text \<open>
  \<^verbatim>\<open>inline constexpr const char* DEVICE_CONFIG_SHM_NAME = "/gr_device_config";\<close>
\<close>

definition DEVICE_CONFIG_SHM_NAME :: string where
  "DEVICE_CONFIG_SHM_NAME = ''/gr_device_config''"

text \<open>
  \<open>DeviceConfigTable\<close> as a container's record type. Its constructor does not throw.
  The size is the one of the usual layout (two entries of 48 bytes and three flags, in
  units of 4 bytes); nothing below depends on the number.
\<close>

definition DeviceConfigTable_type :: "DeviceConfigTable record_type" where
  "DeviceConfigTable_type =
     \<lparr> sizeof_T = 100, T_zero = zeroed_DeviceConfigTable,
       T_ctor = (\<lambda>mem. Some (DeviceConfigTable_ctor mem)),
       T_thrown = (\<lambda>mem. Std_exception) \<rparr>"

text \<open>
  The intended use: the controller creates the table on a system with no shared-memory
  object yet, then an agent opens it with a handle of its own.
\<close>

definition controller_create :: "outcome \<times> handle \<times> DeviceConfigTable os_state" where
  "controller_create =
     SharedState_create DeviceConfigTable_type no_faults SharedState empty_os
       DEVICE_CONFIG_SHM_NAME"

definition agent_open :: "outcome \<times> handle \<times> DeviceConfigTable os_state" where
  "agent_open =
     SharedState_open DeviceConfigTable_type no_faults SharedState (snd (snd controller_create))
       DEVICE_CONFIG_SHM_NAME"

section \<open>Properties of the record layouts\<close>

text \<open>
  C7. The liveness predicate with the sound agent's constants (threshold 5000, margin
  500) reads a heartbeat written 4000 ms before \<open>now\<close> as alive and one written 6000 ms
  before \<open>now\<close> as not alive, whatever \<open>now\<close> is.
\<close>

theorem aliveness_sound_constants:
  "AliveTimeThresholdSound = 5000 \<and> AliveTimeMargin = 500 \<and>
   aliveness AliveTimeThresholdSound AliveTimeMargin now (now - 4000) \<and>
   \<not> aliveness AliveTimeThresholdSound AliveTimeMargin now (now - 6000)"
  by (simp add: aliveness_def AliveTimeThresholdSound_def AliveTimeMargin_def)


subsection \<open>C strings and \<open>setPort\<close>\<close>

lemma c_str_no_NUL: "c \<in> set (c_str bytes) \<Longrightarrow> c \<noteq> NUL"
  by (auto simp: c_str_def dest: set_takeWhileD)

lemma c_str_append_NUL:
  assumes "\<And>c. c \<in> set xs \<Longrightarrow> c \<noteq> NUL"
  shows "c_str (xs @ NUL # ys) = xs"
  using assms by (simp add: c_str_def takeWhile_append2)

lemma length_strncpy: "n \<le> length dst \<Longrightarrow> length (strncpy dst src n) = length dst"
  by (simp add: strncpy_def Let_def)

lemma port_setPort_long:
  assumes len: "length (port d) = sizeof_port" and long: "sizeof_port - 1 \<le> length (c_str p)"
  shows "port (setPort d p) = take (sizeof_port - 1) (c_str p) @ [NUL]"
proof -
  have "length (drop 31 (port d)) = Suc 0"
    using len by (simp add: sizeof_port_def)
  then obtain x where x: "drop 31 (port d) = [x]"
    by (cases "drop 31 (port d)") auto
  have "length (take 31 (c_str p)) = 31"
    using long by (simp add: sizeof_port_def)
  then show ?thesis
    using long x by (simp add: setPort_def strncpy_def Let_def sizeof_port_def list_update_append)
qed

lemma port_setPort_short:
  assumes short: "length (c_str p) < sizeof_port - 1"
  shows "\<exists>rest. port (setPort d p) = c_str p @ NUL # rest"
proof -
  obtain k where k: "31 - length (c_str p) = Suc k"
    using short by (cases "31 - length (c_str p)") (auto simp: sizeof_port_def)
  define tail where "tail = replicate k NUL @ drop 31 (port d)"
  have "port (setPort d p) = (c_str p @ NUL # tail)[31 := NUL]"
    using short k by (simp add: setPort_def strncpy_def Let_def sizeof_port_def tail_def)
  also have "\<dots> = c_str p @ (NUL # tail)[Suc k := NUL]"
    using short k by (simp only: list_update_append) (simp add: sizeof_port_def)
  also have "\<dots> = c_str p @ NUL # tail[k := NUL]"
    by simp
  finally show ?thesis by blast
qed

lemma c_str_setPort:
  assumes len: "length (port d) = sizeof_port"
  shows "c_str (port (setPort d p)) = take (sizeof_port - 1) (c_str p)"
proof (cases "sizeof_port - 1 \<le> length (c_str p)")
  case True
  have "c_str (take (sizeof_port - 1) (c_str p) @ NUL # []) = take (sizeof_port - 1) (c_str p)"
    by (rule c_str_append_NUL) (auto dest: in_set_takeD c_str_no_NUL)
  then show ?thesis using port_setPort_long [OF len True] by simp
next
  case False
  then have short: "length (c_str p) < sizeof_port - 1" by simp
  then obtain rest where "port (setPort d p) = c_str p @ NUL # rest"
    using port_setPort_short by blast
  then show ?thesis using short by (simp add: c_str_append_NUL c_str_no_NUL)
qed

lemma length_port_setPort:
  "length (port d) = sizeof_port \<Longrightarrow> length (port (setPort d p)) = sizeof_port"
  by (simp add: setPort_def Let_def length_strncpy sizeof_port_def)

lemma last_port_setPort:
  "length (port d) = sizeof_port \<Longrightarrow> port (setPort d p) ! (sizeof_port - 1) = NUL"
  by (simp add: setPort_def Let_def length_strncpy sizeof_port_def)

text \<open>
  C8. \<open>setPort\<close> stays inside the 32-byte \<open>port\<close> buffer for every input string: the
  buffer still has 32 bytes afterwards and its last byte is the terminator, the stored
  string is the first 31 characters of the input, so an input of at most 31 characters is
  stored exactly and a longer one is cut to 31 characters.
\<close>

theorem setPort_no_overflow:
  assumes "length (port d) = sizeof_port"
  shows "length (port (setPort d p)) = 32 \<and>
         port (setPort d p) ! 31 = NUL \<and>
         c_str (port (setPort d p)) = take 31 (c_str p) \<and>
         (length (c_str p) \<le> 31 \<longrightarrow> c_str (port (setPort d p)) = c_str p) \<and>
         (31 < length (c_str p) \<longrightarrow> length (c_str (port (setPort d p))) = 31)"
  using length_port_setPort [OF assms, of p] last_port_setPort [OF assms, of p]
    c_str_setPort [OF assms, of p]
  by (simp add: sizeof_port_def)

theorem setPort_no_overflow_witness:
  "length (port zeroed_DeviceConfig) = sizeof_port \<and>
   c_str (port (setPort zeroed_DeviceConfig ''/dev/ttyAMA0'')) = ''/dev/ttyAMA0'' \<and>
   c_str (port (setPort zeroed_DeviceConfig ''/dev/serial/by-id/usb-u-blox_AG_ZED-F9P''))
     = ''/dev/serial/by-id/usb-u-blox_AG''"
proof -
  have len: "length (port zeroed_DeviceConfig) = sizeof_port"
    by (simp add: zeroed_DeviceConfig_def sizeof_port_def)
  show ?thesis
    using len setPort_no_overflow [OF len, of "''/dev/ttyAMA0''"]
      setPort_no_overflow [OF len, of "''/dev/serial/by-id/usb-u-blox_AG_ZED-F9P''"]
    by (simp add: c_str_def NUL_def)
qed

subsection \<open>Default construction of the device table\<close>

lemma DeviceConfig_ctor_fields:
  assumes "DeviceConfig_layout mem"
  shows "c_str (port (DeviceConfig_ctor mem)) = []"
    and "length (port (DeviceConfig_ctor mem)) = 32"
    and "reserved (DeviceConfig_ctor mem) = [0, 0, 0, 0]"
proof -
  from assms obtain c cs where "port mem = c # cs"
    by (cases "port mem") (auto simp: DeviceConfig_layout_def sizeof_port_def)
  then show "c_str (port (DeviceConfig_ctor mem)) = []"
    by (simp add: DeviceConfig_ctor_def c_str_def)
  show "length (port (DeviceConfig_ctor mem)) = 32"
    using assms by (simp add: DeviceConfig_ctor_def DeviceConfig_layout_def sizeof_port_def)
  show "reserved (DeviceConfig_ctor mem) = [0, 0, 0, 0]"
    using assms
    by (simp add: DeviceConfig_ctor_def DeviceConfig_layout_def memset_def sizeof_reserved_def
        numeral_eq_Suc)
qed

text \<open>
  C9. Default construction of \<open>DeviceConfigTable\<close>, on whatever bytes the memory held
  before, gives the unpublished handshake state: \<open>ready\<close>, \<open>gps_ready\<close> and
  \<open>imu_ready\<close> are false, and both device entries have an empty port string, baud rate
  115200, update rate 10, option 0, type 1, \<open>enabled\<close> false and four zero reserved bytes.
\<close>

theorem DeviceConfigTable_default:
  assumes "DeviceConfig_layout (gps mem)" and "DeviceConfig_layout (imu mem)"
  shows "ready (DeviceConfigTable_ctor mem) = False \<and>
         gps_ready (status (DeviceConfigTable_ctor mem)) = False \<and>
         imu_ready (status (DeviceConfigTable_ctor mem)) = False \<and>
         (\<forall>d \<in> {gps (DeviceConfigTable_ctor mem), imu (DeviceConfigTable_ctor mem)}.
            c_str (port d) = [] \<and> length (port d) = 32 \<and> baudrate d = 115200 \<and>
            update_rate_hz d = 10 \<and> option d = 0 \<and> type d = 1 \<and> enabled d = False \<and>
            reserved d = [0, 0, 0, 0])"
  using DeviceConfig_ctor_fields [OF assms(1)] DeviceConfig_ctor_fields [OF assms(2)]
  by (simp add: DeviceConfigTable_ctor_def) (simp add: DeviceConfig_ctor_def)

theorem DeviceConfigTable_default_witness:
  "DeviceConfig_layout (gps zeroed_DeviceConfigTable) \<and>
   DeviceConfig_layout (imu zeroed_DeviceConfigTable) \<and>
   ready (DeviceConfigTable_ctor zeroed_DeviceConfigTable) = False \<and>
   baudrate (gps (DeviceConfigTable_ctor zeroed_DeviceConfigTable)) = 115200 \<and>
   c_str (port (imu (DeviceConfigTable_ctor zeroed_DeviceConfigTable))) = []"
proof -
  have g: "DeviceConfig_layout (gps zeroed_DeviceConfigTable)"
    and i: "DeviceConfig_layout (imu zeroed_DeviceConfigTable)"
    by (simp_all add: zeroed_DeviceConfigTable_def zeroed_DeviceConfig_def
        DeviceConfig_layout_def sizeof_port_def sizeof_reserved_def)
  show ?thesis
    using g i DeviceConfigTable_default [OF g i] by simp
qed

subsection \<open>GPS option test\<close>

lemma and_flag_bit: "(x AND push_bit n 1 \<noteq> 0) = bit x n" for x :: u8
  by (simp add: and_exp_eq_0_iff_not_bit push_bit_eq_mult)

text \<open>
  C10. \<open>HasGpsOption currentOptions target\<close> is true exactly when the bit that
  \<open>target\<close> names (its enumerator value is that single bit) is set in
  \<open>currentOptions\<close>; \<open>NONE\<close> names no bit and never tests as present.
\<close>

theorem HasGpsOption_iff_bit:
  "GpsOption_value target = (case GpsOption_bit target of None \<Rightarrow> 0 | Some n \<Rightarrow> push_bit n 1) \<and>
   HasGpsOption currentOptions target =
     (case GpsOption_bit target of None \<Rightarrow> False | Some n \<Rightarrow> bit currentOptions n) \<and>
   \<not> HasGpsOption currentOptions NONE"
proof -
  have "HasGpsOption currentOptions target =
     (case GpsOption_bit target of None \<Rightarrow> False | Some n \<Rightarrow> bit currentOptions n)"
    unfolding HasGpsOption_def
    by (cases target) (simp_all only: GpsOption_value.simps GpsOption_bit.simps and_flag_bit
        option.case, simp)
  moreover have "GpsOption_value target =
      (case GpsOption_bit target of None \<Rightarrow> 0 | Some n \<Rightarrow> push_bit n 1)"
    by (cases target) simp_all
  moreover have "\<not> HasGpsOption currentOptions NONE"
    by (simp add: HasGpsOption_def)
  ultimately show ?thesis by blast
qed

theorem HasGpsOption_iff_bit_witness:
  "HasGpsOption 5 IMU_SAVE \<and> HasGpsOption 5 USE_RTK \<and> \<not> HasGpsOption 5 USE_DR \<and>
   \<not> HasGpsOption 255 NONE"
  using HasGpsOption_iff_bit [of IMU_SAVE 5] HasGpsOption_iff_bit [of USE_RTK 5]
    HasGpsOption_iff_bit [of USE_DR 5] HasGpsOption_iff_bit [of NONE 255]
  by (simp add: bit_numeral_simps)

section \<open>Properties of the container\<close>

subsection \<open>Descriptors and addresses\<close>

lemma lowest_free_props: "lowest_free lo used \<notin> set used \<and> lo \<le> lowest_free lo used"
proof -
  let ?cands = "[lo ..< lo + Suc (length used)]"
  have "\<not> set ?cands \<subseteq> set used"
  proof
    assume "set ?cands \<subseteq> set used"
    then have "card (set ?cands) \<le> card (set used)"
      by (intro card_mono) auto
    moreover have "card (set ?cands) = Suc (length used)" by simp
    moreover have "card (set used) \<le> length used" by (rule card_length)
    ultimately show False by simp
  qed
  then have ne: "filter (\<lambda>n. n \<notin> set used) ?cands \<noteq> []"
    by (auto simp: filter_empty_conv)
  then have "hd (filter (\<lambda>n. n \<notin> set used) ?cands) \<in> set (filter (\<lambda>n. n \<notin> set used) ?cands)"
    by (rule hd_in_set)
  then show ?thesis
    by (simp add: lowest_free_def del: upt_Suc)
qed

lemma lowest_free_fresh: "(lowest_free lo (map fst tbl), obj) \<notin> set tbl"
  using lowest_free_props [of lo "map fst tbl"] by force

lemma lowest_free_pos: "lowest_free (Suc 0) used \<noteq> 0"
  using lowest_free_props [of "Suc 0" used] by auto

lemma lowest_free_gt0: "0 < lowest_free (Suc 0) used"
  using lowest_free_props [of "Suc 0" used] by auto

lemma filter_fresh: "filter (\<lambda>(k, obj). k \<noteq> lowest_free lo (map fst tbl)) tbl = tbl"
  using lowest_free_fresh [of lo tbl] by (auto simp: filter_id_conv)

lemma lowest_free_Nil: "lowest_free lo [] = lo"
  by (simp add: lowest_free_def)

lemma lowest_free_single: "lowest_free lo [lo] = Suc lo"
  by (simp add: lowest_free_def upt_rec)

lemma snd_shm_unlink: "snd (shm_unlink os name) = os\<lparr>shm_names := (shm_names os)(name := None)\<rparr>"
  by (cases "shm_names os name") (simp_all add: shm_unlink_def fun_upd_idem)

subsection \<open>What \<open>create\<close> and \<open>open\<close> return\<close>

lemma create_success:
  assumes "validateName name" and "\<not> fail_shm_open flt" and "\<not> fail_ftruncate flt"
    and "\<not> fail_mmap flt" and "T_ctor tp (T_zero tp) = Some r"
  shows "SharedState_create tp flt h os name =
     (Success,
      \<lparr> shm_fd = int (lowest_free 0 (map fst (open_fds os))),
        data_ptr = lowest_free 1 (map fst (mappings os)),
        is_owner = True, shm_name = name \<rparr>,
      \<lparr> shm_names = (shm_names os)(name \<mapsto> length (shm_objects os)),
        shm_objects = shm_objects os @ [\<lparr>obj_size = sizeof_T tp, obj_data = r\<rparr>],
        open_fds = (lowest_free 0 (map fst (open_fds os)), length (shm_objects os)) # open_fds os,
        mappings = (lowest_free 1 (map fst (mappings os)), length (shm_objects os)) # mappings os \<rparr>)"
  using assms
  by (simp add: SharedState_create_def snd_shm_unlink shm_open_def Let_def ftruncate_def
      fd_object_def mapMemory_def mmap_def placement_new_def lowest_free_pos)

lemma map_of_filter_out: "map_of (filter (\<lambda>(k, v). k \<noteq> a) tbl) a = None"
  by (induction tbl) auto

lemma cleanup_eq:
  "cleanup h os =
     (h\<lparr>data_ptr := 0, shm_fd := (if 0 \<le> shm_fd h then - 1 else shm_fd h)\<rparr>,
      os\<lparr>mappings := (if data_ptr h \<noteq> 0 then filter (\<lambda>(a, obj). a \<noteq> data_ptr h) (mappings os)
                       else mappings os),
         open_fds := (if 0 \<le> shm_fd h then filter (\<lambda>(k, obj). k \<noteq> nat (shm_fd h)) (open_fds os)
                      else open_fds os),
         shm_names := (if is_owner h \<and> shm_name h \<noteq> [] then (shm_names os)(shm_name h := None)
                       else shm_names os)\<rparr>)"
  by (simp add: cleanup_def munmap_def sys_close_def snd_shm_unlink Let_def)

lemma validateName_nonempty: "validateName name \<Longrightarrow> name \<noteq> []"
  by (auto simp: validateName_def)

lemma create_invalid:
  "\<not> validateName name \<Longrightarrow> SharedState_create tp flt h os name = (Failure InvalidName, h, os)"
  by (simp add: SharedState_create_def)

lemma create_shm_open_fails:
  assumes "validateName name" and "fail_shm_open flt"
  shows "SharedState_create tp flt h os name =
     (Failure ShmOpenFailed, h\<lparr>shm_name := name, shm_fd := - 1\<rparr>,
      os\<lparr>shm_names := (shm_names os)(name := None)\<rparr>)"
  using assms by (simp add: SharedState_create_def snd_shm_unlink shm_open_def Let_def)

lemma create_ftruncate_fails:
  assumes "validateName name" and "\<not> fail_shm_open flt" and "fail_ftruncate flt"
  shows "SharedState_create tp flt h os name =
     (Failure FtruncateFailed, h\<lparr>shm_name := name, shm_fd := - 1\<rparr>,
      os\<lparr>shm_names := (shm_names os)(name \<mapsto> length (shm_objects os)),
         shm_objects := shm_objects os @ [\<lparr>obj_size = 0, obj_data = T_zero tp\<rparr>]\<rparr>)"
  using assms
  by (simp add: SharedState_create_def snd_shm_unlink shm_open_def Let_def ftruncate_def
      sys_close_def filter_fresh)

lemma create_mmap_fails:
  assumes "validateName name" and "\<not> fail_shm_open flt" and "\<not> fail_ftruncate flt"
    and "fail_mmap flt"
  shows "SharedState_create tp flt h os name =
     (Failure MmapFailed, h\<lparr>shm_name := name, shm_fd := - 1, data_ptr := 0\<rparr>,
      os\<lparr>shm_names := (if is_owner h then (shm_names os)(name := None)
                        else (shm_names os)(name \<mapsto> length (shm_objects os))),
         shm_objects := shm_objects os @ [\<lparr>obj_size = sizeof_T tp, obj_data = T_zero tp\<rparr>],
         mappings := (if data_ptr h \<noteq> 0
                      then filter (\<lambda>(a, obj). a \<noteq> data_ptr h) (mappings os)
                      else mappings os)\<rparr>)"
  using assms
  by (simp add: SharedState_create_def snd_shm_unlink shm_open_def Let_def ftruncate_def
      fd_object_def mapMemory_def mmap_def handleInternalError_def cleanup_eq filter_fresh
      validateName_nonempty)

lemma create_ctor_throws:
  assumes "validateName name" and "\<not> fail_shm_open flt" and "\<not> fail_ftruncate flt"
    and "\<not> fail_mmap flt" and "T_ctor tp (T_zero tp) = None"
    and "T_thrown tp (T_zero tp) = Std_exception"
  shows "SharedState_create tp flt h os name =
     (Failure Exception, h\<lparr>shm_name := name, shm_fd := - 1, data_ptr := 0\<rparr>,
      os\<lparr>shm_names := (if is_owner h then (shm_names os)(name := None)
                        else (shm_names os)(name \<mapsto> length (shm_objects os))),
         shm_objects := shm_objects os @ [\<lparr>obj_size = sizeof_T tp, obj_data = T_zero tp\<rparr>]\<rparr>)"
  using assms
  by (simp add: SharedState_create_def snd_shm_unlink shm_open_def Let_def ftruncate_def
      fd_object_def mapMemory_def mmap_def placement_new_def cleanup_eq filter_fresh
      lowest_free_gt0 validateName_nonempty)

lemma create_ctor_uncaught:
  assumes "validateName name" and "\<not> fail_shm_open flt" and "\<not> fail_ftruncate flt"
    and "\<not> fail_mmap flt" and "T_ctor tp (T_zero tp) = None"
    and "T_thrown tp (T_zero tp) = Other_throw"
  shows "SharedState_create tp flt h os name =
     (Uncaught,
      h\<lparr>shm_name := name, shm_fd := int (lowest_free 0 (map fst (open_fds os))),
        data_ptr := lowest_free 1 (map fst (mappings os))\<rparr>,
      os\<lparr>shm_names := (shm_names os)(name \<mapsto> length (shm_objects os)),
         shm_objects := shm_objects os @ [\<lparr>obj_size = sizeof_T tp, obj_data = T_zero tp\<rparr>],
         open_fds := (lowest_free 0 (map fst (open_fds os)), length (shm_objects os)) # open_fds os,
         mappings := (lowest_free 1 (map fst (mappings os)), length (shm_objects os)) # mappings os\<rparr>)"
  using assms
  by (simp add: SharedState_create_def snd_shm_unlink shm_open_def Let_def ftruncate_def
      fd_object_def mapMemory_def mmap_def placement_new_def lowest_free_gt0)

lemma open_invalid:
  "\<not> validateName name \<Longrightarrow> SharedState_open tp flt h os name = (Failure InvalidName, h, os)"
  by (simp add: SharedState_open_def)

lemma open_shm_open_fails:
  assumes "validateName name" and "fail_shm_open flt \<or> shm_names os name = None"
  shows "SharedState_open tp flt h os name =
     (Failure ShmOpenFailed, h\<lparr>shm_name := name, shm_fd := - 1\<rparr>, os)"
  using assms by (auto simp: SharedState_open_def shm_open_def Let_def)

lemma open_mmap_fails:
  assumes "validateName name" and "\<not> fail_shm_open flt" and "shm_names os name = Some obj"
    and "fail_mmap flt"
  shows "SharedState_open tp flt h os name =
     (Failure MmapFailed, h\<lparr>shm_name := name, shm_fd := - 1, data_ptr := 0\<rparr>,
      os\<lparr>shm_names := (if is_owner h then (shm_names os)(name := None) else shm_names os),
         mappings := (if data_ptr h \<noteq> 0
                      then filter (\<lambda>(a, obj). a \<noteq> data_ptr h) (mappings os)
                      else mappings os)\<rparr>)"
  using assms
  by (simp add: SharedState_open_def shm_open_def Let_def
      fd_object_def mapMemory_def mmap_def handleInternalError_def cleanup_eq filter_fresh
      validateName_nonempty)


lemma open_existing:
  assumes "shm_names os name = Some obj" and "validateName name"
    and "\<not> fail_shm_open flt" and "\<not> fail_mmap flt"
  shows "SharedState_open tp flt h os name =
     (Success,
      \<lparr> shm_fd = int (lowest_free 0 (map fst (open_fds os))),
        data_ptr = lowest_free 1 (map fst (mappings os)),
        is_owner = False, shm_name = name \<rparr>,
      os\<lparr> open_fds := (lowest_free 0 (map fst (open_fds os)), obj) # open_fds os,
          mappings := (lowest_free 1 (map fst (mappings os)), obj) # mappings os \<rparr>)"
  using assms
  by (simp add: SharedState_open_def shm_open_def Let_def fd_object_def mapMemory_def mmap_def)

lemma create_unfold:
  "SharedState_create tp flt h os name =
     (if \<not> validateName name then (Failure InvalidName, h, os)
      else if fail_shm_open flt then
        (Failure ShmOpenFailed, h\<lparr>shm_name := name, shm_fd := - 1\<rparr>,
         os\<lparr>shm_names := (shm_names os)(name := None)\<rparr>)
      else if fail_ftruncate flt then
        (Failure FtruncateFailed, h\<lparr>shm_name := name, shm_fd := - 1\<rparr>,
         os\<lparr>shm_names := (shm_names os)(name \<mapsto> length (shm_objects os)),
            shm_objects := shm_objects os @ [\<lparr>obj_size = 0, obj_data = T_zero tp\<rparr>]\<rparr>)
      else if fail_mmap flt then
        (Failure MmapFailed, h\<lparr>shm_name := name, shm_fd := - 1, data_ptr := 0\<rparr>,
         os\<lparr>shm_names := (if is_owner h then (shm_names os)(name := None)
                           else (shm_names os)(name \<mapsto> length (shm_objects os))),
            shm_objects := shm_objects os @ [\<lparr>obj_size = sizeof_T tp, obj_data = T_zero tp\<rparr>],
            mappings := (if data_ptr h \<noteq> 0
                         then filter (\<lambda>(a, obj). a \<noteq> data_ptr h) (mappings os)
                         else mappings os)\<rparr>)
      else
        case T_ctor tp (T_zero tp) of
          None \<Rightarrow>
            (case T_thrown tp (T_zero tp) of
               Std_exception \<Rightarrow>
                 (Failure Exception, h\<lparr>shm_name := name, shm_fd := - 1, data_ptr := 0\<rparr>,
                  os\<lparr>shm_names := (if is_owner h then (shm_names os)(name := None)
                                    else (shm_names os)(name \<mapsto> length (shm_objects os))),
                     shm_objects :=
                       shm_objects os @ [\<lparr>obj_size = sizeof_T tp, obj_data = T_zero tp\<rparr>]\<rparr>)
             | Other_throw \<Rightarrow>
                 (Uncaught,
                  h\<lparr>shm_name := name, shm_fd := int (lowest_free 0 (map fst (open_fds os))),
                    data_ptr := lowest_free 1 (map fst (mappings os))\<rparr>,
                  os\<lparr>shm_names := (shm_names os)(name \<mapsto> length (shm_objects os)),
                     shm_objects :=
                       shm_objects os @ [\<lparr>obj_size = sizeof_T tp, obj_data = T_zero tp\<rparr>],
                     open_fds :=
                       (lowest_free 0 (map fst (open_fds os)), length (shm_objects os))
                       # open_fds os,
                     mappings :=
                       (lowest_free 1 (map fst (mappings os)), length (shm_objects os))
                       # mappings os\<rparr>))
        | Some r \<Rightarrow>
            (Success,
             \<lparr> shm_fd = int (lowest_free 0 (map fst (open_fds os))),
               data_ptr = lowest_free 1 (map fst (mappings os)),
               is_owner = True, shm_name = name \<rparr>,
             \<lparr> shm_names = (shm_names os)(name \<mapsto> length (shm_objects os)),
               shm_objects = shm_objects os @ [\<lparr>obj_size = sizeof_T tp, obj_data = r\<rparr>],
               open_fds = (lowest_free 0 (map fst (open_fds os)), length (shm_objects os)) # open_fds os,
               mappings = (lowest_free 1 (map fst (mappings os)), length (shm_objects os)) # mappings os \<rparr>))"
  by (simp add: create_invalid create_shm_open_fails create_ftruncate_fails create_mmap_fails
      create_ctor_throws create_ctor_uncaught create_success split: option.split thrown.split)

lemma open_unfold:
  "SharedState_open tp flt h os name =
     (if \<not> validateName name then (Failure InvalidName, h, os)
      else if fail_shm_open flt then
        (Failure ShmOpenFailed, h\<lparr>shm_name := name, shm_fd := - 1\<rparr>, os)
      else
        case shm_names os name of
          None \<Rightarrow> (Failure ShmOpenFailed, h\<lparr>shm_name := name, shm_fd := - 1\<rparr>, os)
        | Some obj \<Rightarrow>
            if fail_mmap flt then
              (Failure MmapFailed, h\<lparr>shm_name := name, shm_fd := - 1, data_ptr := 0\<rparr>,
               os\<lparr>shm_names := (if is_owner h then (shm_names os)(name := None)
                                 else shm_names os),
                  mappings := (if data_ptr h \<noteq> 0
                               then filter (\<lambda>(a, obj). a \<noteq> data_ptr h) (mappings os)
                               else mappings os)\<rparr>)
            else
              (Success,
               \<lparr> shm_fd = int (lowest_free 0 (map fst (open_fds os))),
                 data_ptr = lowest_free 1 (map fst (mappings os)),
                 is_owner = False, shm_name = name \<rparr>,
               os\<lparr> open_fds := (lowest_free 0 (map fst (open_fds os)), obj) # open_fds os,
                   mappings := (lowest_free 1 (map fst (mappings os)), obj) # mappings os \<rparr>))"
  by (simp add: open_invalid open_shm_open_fails open_mmap_fails open_existing split: option.split)

lemma create_outcome:
  "fst (SharedState_create tp flt h os name) =
     (if \<not> validateName name then Failure InvalidName
      else if fail_shm_open flt then Failure ShmOpenFailed
      else if fail_ftruncate flt then Failure FtruncateFailed
      else if fail_mmap flt then Failure MmapFailed
      else if T_ctor tp (T_zero tp) = None then
        (if T_thrown tp (T_zero tp) = Std_exception then Failure Exception else Uncaught)
      else Success)"
  by (auto simp: create_unfold split: option.splits thrown.splits)

lemma create_Success_D:
  assumes "SharedState_create tp flt h os name = (Success, h', os')"
  shows "validateName name \<and> \<not> fail_shm_open flt \<and> \<not> fail_ftruncate flt \<and>
         \<not> fail_mmap flt \<and> (\<exists>r. T_ctor tp (T_zero tp) = Some r)"
proof -
  have "fst (SharedState_create tp flt h os name) = Success"
    using assms by simp
  then show ?thesis
    by (auto simp: create_outcome split: if_splits)
qed





lemma open_outcome:
  "fst (SharedState_open tp flt h os name) =
     (if \<not> validateName name then Failure InvalidName
      else if fail_shm_open flt \<or> shm_names os name = None then Failure ShmOpenFailed
      else if fail_mmap flt then Failure MmapFailed
      else Success)"
  by (auto simp: open_unfold split: option.splits)

lemma create_is_owner:
  "SharedState_create tp flt h os name = (r, h', os') \<Longrightarrow>
     is_owner h' = (if r = Success then True else is_owner h)"
  by (auto simp: create_unfold split: if_splits option.splits thrown.splits)

lemma open_is_owner:
  "SharedState_open tp flt h os name = (r, h', os') \<Longrightarrow>
     is_owner h' = (if r = Success then False else is_owner h)"
  by (auto simp: open_unfold split: if_splits option.splits)

lemma close_is_owner: "SharedState_close h os = (h', os') \<Longrightarrow> is_owner h' = is_owner h"
  by (auto simp: SharedState_close_def cleanup_eq)

lemma step_owner_inv: "owner_inv s \<Longrightarrow> owner_inv (step tp s c)"
proof (cases s)
  case (fields h os att)
  assume inv: "owner_inv s"
  show ?thesis
  proof (cases c)
    case (Create name flt)
    obtain r h' os' where cr: "SharedState_create tp flt h os name = (r, h', os')"
      by (cases "SharedState_create tp flt h os name") auto
    from create_is_owner [OF cr] inv show ?thesis
      by (cases r) (auto simp: fields Create cr owner_inv_def)
  next
    case (Open name flt)
    obtain r h' os' where op: "SharedState_open tp flt h os name = (r, h', os')"
      by (cases "SharedState_open tp flt h os name") auto
    from open_is_owner [OF op] inv show ?thesis
      by (cases r) (auto simp: fields Open op owner_inv_def)
  next
    case Close
    obtain h' os' where cl: "SharedState_close h os = (h', os')"
      by (cases "SharedState_close h os") auto
    from close_is_owner [OF cl] inv show ?thesis
      by (auto simp: fields Close cl owner_inv_def)
  qed
qed

lemma foldl_owner_inv: "owner_inv s \<Longrightarrow> owner_inv (foldl (step tp) s calls)"
  by (induction calls arbitrary: s) (simp_all add: step_owner_inv)

lemma run_owner_inv: "owner_inv (run tp os calls)"
  unfolding run_def by (rule foldl_owner_inv) (simp add: owner_inv_def SharedState_def)

lemma validateName_DEVICE_CONFIG: "validateName DEVICE_CONFIG_SHM_NAME"
  by (simp add: validateName_def DEVICE_CONFIG_SHM_NAME_def)

lemma controller_create_eq:
  "controller_create =
     (Success,
      \<lparr> shm_fd = 0, data_ptr = 1, is_owner = True, shm_name = DEVICE_CONFIG_SHM_NAME \<rparr>,
      \<lparr> shm_names = [DEVICE_CONFIG_SHM_NAME \<mapsto> 0],
        shm_objects = [\<lparr>obj_size = 100, obj_data = DeviceConfigTable_ctor zeroed_DeviceConfigTable\<rparr>],
        open_fds = [(0, 0)], mappings = [(1, 0)] \<rparr>)"
  unfolding controller_create_def
  by (subst create_success [where r = "DeviceConfigTable_ctor zeroed_DeviceConfigTable"])
    (simp_all add: validateName_DEVICE_CONFIG no_faults_def DeviceConfigTable_type_def empty_os_def
      lowest_free_Nil)

lemma agent_open_eq:
  "agent_open =
     (Success,
      \<lparr> shm_fd = 1, data_ptr = 2, is_owner = False, shm_name = DEVICE_CONFIG_SHM_NAME \<rparr>,
      \<lparr> shm_names = [DEVICE_CONFIG_SHM_NAME \<mapsto> 0],
        shm_objects = [\<lparr>obj_size = 100, obj_data = DeviceConfigTable_ctor zeroed_DeviceConfigTable\<rparr>],
        open_fds = [(1, 0), (0, 0)], mappings = [(2, 0), (1, 0)] \<rparr>)"
  unfolding agent_open_def controller_create_eq
  by (subst open_existing [where obj = 0])
    (simp_all add: validateName_DEVICE_CONFIG no_faults_def lowest_free_single
      lowest_free_single [of 0, simplified])

subsection \<open>Create, then open\<close>

text \<open>
  C1. For a valid name, when \<open>create\<close> succeeds on one handle, an \<open>open\<close> of the same
  name on a second handle whose system calls do not fail succeeds as well; it leaves the
  stored objects and the names as they are (nothing is constructed or reset), and the
  record read through the second handle is the one the creator's default construction
  produced, which is also what the creator reads.
\<close>

theorem create_then_open:
  assumes "validateName name"
    and "SharedState_create tp flt1 h1 os name = (Success, h1', os1)"
    and "\<not> fail_shm_open flt2" and "\<not> fail_mmap flt2"
  shows "\<exists>h2' os2 r.
           SharedState_open tp flt2 h2 os1 name = (Success, h2', os2) \<and>
           shm_objects os2 = shm_objects os1 \<and> shm_names os2 = shm_names os1 \<and>
           T_ctor tp (T_zero tp) = Some r \<and>
           deref tp os1 h1' = Some r \<and> deref tp os2 h2' = Some r"
proof -
  from create_Success_D [OF assms(2)] obtain r where
    ok: "\<not> fail_shm_open flt1" "\<not> fail_ftruncate flt1" "\<not> fail_mmap flt1"
    and r: "T_ctor tp (T_zero tp) = Some r"
    by blast
  note cr = create_success [OF assms(1) ok r, of h1 os]
  from cr assms(2) have h1': "data_ptr h1' = lowest_free 1 (map fst (mappings os))"
    and os1: "os1 = \<lparr> shm_names = (shm_names os)(name \<mapsto> length (shm_objects os)),
        shm_objects = shm_objects os @ [\<lparr>obj_size = sizeof_T tp, obj_data = r\<rparr>],
        open_fds = (lowest_free 0 (map fst (open_fds os)), length (shm_objects os)) # open_fds os,
        mappings = (lowest_free 1 (map fst (mappings os)), length (shm_objects os)) # mappings os \<rparr>"
    by simp_all
  have nm: "shm_names os1 name = Some (length (shm_objects os))"
    by (simp add: os1)
  note op = open_existing [OF nm assms(1) assms(3) assms(4), of tp h2]
  have d1: "deref tp os1 h1' = Some r"
    by (simp add: deref_def h1' os1 lowest_free_pos)
  have d2: "deref tp (snd (snd (SharedState_open tp flt2 h2 os1 name)))
              (fst (snd (SharedState_open tp flt2 h2 os1 name))) = Some r"
    unfolding op by (simp add: deref_def lowest_free_pos) (simp add: os1)
  show ?thesis
    using d1 d2 r unfolding op by simp
qed

theorem create_then_open_witness:
  "validateName DEVICE_CONFIG_SHM_NAME \<and>
   fst controller_create = Success \<and> fst agent_open = Success \<and>
   deref DeviceConfigTable_type (snd (snd agent_open)) (fst (snd agent_open))
     = Some (DeviceConfigTable_ctor zeroed_DeviceConfigTable) \<and>
   shm_objects (snd (snd agent_open)) = shm_objects (snd (snd controller_create))"
proof -
  have cr: "SharedState_create DeviceConfigTable_type no_faults SharedState empty_os
      DEVICE_CONFIG_SHM_NAME = (Success, fst (snd controller_create), snd (snd controller_create))"
    by (simp add: controller_create_def [symmetric] controller_create_eq)
  have nf: "\<not> fail_shm_open no_faults" "\<not> fail_mmap no_faults"
    by (simp_all add: no_faults_def)
  from create_then_open [OF validateName_DEVICE_CONFIG cr nf, of SharedState]
  obtain h2' os2 r where
    op: "agent_open = (Success, h2', os2)"
    and objs: "shm_objects os2 = shm_objects (snd (snd controller_create))"
    and r: "T_ctor DeviceConfigTable_type (T_zero DeviceConfigTable_type) = Some r"
    and d: "deref DeviceConfigTable_type os2 h2' = Some r"
    unfolding agent_open_def by blast
  from r have "r = DeviceConfigTable_ctor zeroed_DeviceConfigTable"
    by (simp add: DeviceConfigTable_type_def)
  with objs d show ?thesis
    unfolding op by (simp add: validateName_DEVICE_CONFIG controller_create_eq)
qed

subsection \<open>Create on a name in use\<close>

text \<open>
  C2. For a valid name, with no system call failing and a constructor that does not
  throw, \<open>create\<close> succeeds whether or not the name already has an object. The state it
  leaves shows its steps: the name now belongs to a newly allocated object (a stale object
  of that name is first unlinked and then no longer reachable by name, its contents
  untouched), the new object has size \<^verbatim>\<open>sizeof(T)\<close> and holds the default-constructed
  record, the handle has a descriptor and a mapping of the new object, and is the owner.
\<close>

theorem create_replaces_stale:
  assumes "validateName name"
    and "\<not> fail_shm_open flt" and "\<not> fail_ftruncate flt" and "\<not> fail_mmap flt"
    and "T_ctor tp (T_zero tp) = Some r"
  shows "\<exists>h' os' fd ptr.
           SharedState_create tp flt h os name = (Success, h', os') \<and>
           h' = \<lparr> shm_fd = int fd, data_ptr = ptr, is_owner = True, shm_name = name \<rparr> \<and>
           ptr \<noteq> 0 \<and>
           os' = \<lparr> shm_names = (shm_names os)(name \<mapsto> length (shm_objects os)),
                   shm_objects = shm_objects os @ [\<lparr>obj_size = sizeof_T tp, obj_data = r\<rparr>],
                   open_fds = (fd, length (shm_objects os)) # open_fds os,
                   mappings = (ptr, length (shm_objects os)) # mappings os \<rparr> \<and>
           deref tp os' h' = Some r \<and>
           (\<forall>stale. shm_names os name = Some stale \<and> stale < length (shm_objects os) \<longrightarrow>
              shm_names os' name \<noteq> Some stale \<and>
              shm_objects os' ! stale = shm_objects os ! stale)"
  unfolding create_success [OF assms]
  by (simp add: lowest_free_gt0 deref_def nth_append)

theorem create_replaces_stale_witness:
  "validateName DEVICE_CONFIG_SHM_NAME \<and>
   shm_names (snd (snd controller_create)) DEVICE_CONFIG_SHM_NAME = Some 0 \<and>
   fst (SharedState_create DeviceConfigTable_type no_faults SharedState
          (snd (snd controller_create)) DEVICE_CONFIG_SHM_NAME) = Success \<and>
   shm_names (snd (snd (SharedState_create DeviceConfigTable_type no_faults SharedState
          (snd (snd controller_create)) DEVICE_CONFIG_SHM_NAME))) DEVICE_CONFIG_SHM_NAME = Some 1"
proof -
  have nf: "\<not> fail_shm_open no_faults" "\<not> fail_ftruncate no_faults" "\<not> fail_mmap no_faults"
    by (simp_all add: no_faults_def)
  have r: "T_ctor DeviceConfigTable_type (T_zero DeviceConfigTable_type)
      = Some (DeviceConfigTable_ctor zeroed_DeviceConfigTable)"
    by (simp add: DeviceConfigTable_type_def)
  from create_replaces_stale [OF validateName_DEVICE_CONFIG nf r, of SharedState
      "snd (snd controller_create)"]
  show ?thesis
    by (auto simp: validateName_DEVICE_CONFIG controller_create_eq)
qed

subsection \<open>Invalid names\<close>

text \<open>
  C4. For a name that is empty or does not start with \<open>/\<close>, \<open>create\<close> and \<open>open\<close>
  both return false with the invalid-name diagnostic, and leave the system state (so no
  object is created) and the handle exactly as they were.
\<close>

theorem invalid_name_rejected:
  assumes "name = [] \<or> hd name \<noteq> CHR ''/''"
  shows "SharedState_create tp flt h os name = (Failure InvalidName, h, os) \<and>
         SharedState_open tp flt h os name = (Failure InvalidName, h, os)"
  using assms by (auto simp: SharedState_create_def SharedState_open_def validateName_def)

theorem invalid_name_rejected_witness:
  "hd ''gr_device_config'' \<noteq> CHR ''/'' \<and>
   SharedState_create DeviceConfigTable_type no_faults SharedState empty_os ''gr_device_config''
     = (Failure InvalidName, SharedState, empty_os) \<and>
   SharedState_open DeviceConfigTable_type no_faults SharedState empty_os []
     = (Failure InvalidName, SharedState, empty_os)"
proof -
  have a: "''gr_device_config'' = [] \<or> hd ''gr_device_config'' \<noteq> CHR ''/''" by simp
  have b: "([] :: string) = [] \<or> hd ([] :: string) \<noteq> CHR ''/''" by simp
  show ?thesis
    using invalid_name_rejected [OF a, of DeviceConfigTable_type no_faults SharedState empty_os]
      invalid_name_rejected [OF b, of DeviceConfigTable_type no_faults SharedState empty_os]
    by simp
qed

subsection \<open>Failed attempts\<close>




subsection \<open>Closing\<close>

text \<open>
  C5. \<open>close\<close> (the destructor runs the same \<open>cleanup\<close>) leaves the handle without
  mapping and descriptor, and the mapping and the descriptor it held are gone from the
  system. It never touches an object's contents. It unlinks the handle's name when the
  handle is owner, and only then: closing a handle that is not owner leaves every name in
  place, so that an \<open>open\<close> of an existing name on another handle still succeeds
  afterwards (when that call's own system calls do not fail). A second \<open>close\<close> changes
  nothing.
\<close>

theorem close_owner_gated:
  assumes "SharedState_close h os = (h', os')"
  shows "data_ptr h' = 0 \<and> shm_fd h' < 0 \<and> \<not> isInitialized h' \<and>
         (data_ptr h \<noteq> 0 \<longrightarrow> map_of (mappings os') (data_ptr h) = None) \<and>
         (0 \<le> shm_fd h \<longrightarrow> fd_object os' (shm_fd h) = None) \<and>
         shm_objects os' = shm_objects os \<and>
         shm_names os' = (if is_owner h \<and> shm_name h \<noteq> [] then (shm_names os)(shm_name h := None)
                          else shm_names os) \<and>
         (\<not> is_owner h \<longrightarrow>
            (\<forall>tp flt h2 name. validateName name \<and> shm_names os name \<noteq> None \<and>
               \<not> fail_shm_open flt \<and> \<not> fail_mmap flt \<longrightarrow>
               fst (SharedState_open tp flt h2 os' name) = Success)) \<and>
         SharedState_close h' os' = (h', os')"
proof -
  from assms have h': "h' = h\<lparr>data_ptr := 0, shm_fd := (if 0 \<le> shm_fd h then - 1 else shm_fd h)\<rparr>"
    and os': "os' = os\<lparr>mappings := (if data_ptr h \<noteq> 0
                          then filter (\<lambda>(a, obj). a \<noteq> data_ptr h) (mappings os)
                          else mappings os),
         open_fds := (if 0 \<le> shm_fd h then filter (\<lambda>(k, obj). k \<noteq> nat (shm_fd h)) (open_fds os)
                      else open_fds os),
         shm_names := (if is_owner h \<and> shm_name h \<noteq> [] then (shm_names os)(shm_name h := None)
                       else shm_names os)\<rparr>"
    by (simp_all add: SharedState_close_def cleanup_eq)
  have handle: "data_ptr h' = 0 \<and> shm_fd h' < 0 \<and> \<not> isInitialized h'"
    by (simp add: h' isInitialized_def)
  have gone: "(data_ptr h \<noteq> 0 \<longrightarrow> map_of (mappings os') (data_ptr h) = None) \<and>
         (0 \<le> shm_fd h \<longrightarrow> fd_object os' (shm_fd h) = None)"
    by (simp add: os' fd_object_def map_of_filter_out)
  have store: "shm_objects os' = shm_objects os \<and>
         shm_names os' = (if is_owner h \<and> shm_name h \<noteq> [] then (shm_names os)(shm_name h := None)
                          else shm_names os)"
    by (simp add: os')
  have reopen: "\<not> is_owner h \<longrightarrow>
            (\<forall>tp flt h2 name. validateName name \<and> shm_names os name \<noteq> None \<and>
               \<not> fail_shm_open flt \<and> \<not> fail_mmap flt \<longrightarrow>
               fst (SharedState_open tp flt h2 os' name) = Success)"
    using store by (simp add: open_outcome)
  have again: "SharedState_close h' os' = (h', os')"
    by (simp add: SharedState_close_def cleanup_eq h' os')
  from handle gone store reopen again show ?thesis by blast
qed

theorem close_owner_gated_witness:
  "\<not> is_owner (fst (snd agent_open)) \<and>
   shm_names (snd (SharedState_close (fst (snd agent_open)) (snd (snd agent_open))))
     DEVICE_CONFIG_SHM_NAME = Some 0 \<and>
   fst (SharedState_open DeviceConfigTable_type no_faults SharedState
     (snd (SharedState_close (fst (snd agent_open)) (snd (snd agent_open))))
     DEVICE_CONFIG_SHM_NAME) = Success \<and>
   is_owner (fst (snd controller_create)) \<and>
   shm_names (snd (SharedState_close (fst (snd controller_create)) (snd (snd controller_create))))
     DEVICE_CONFIG_SHM_NAME = None"
proof -
  let ?agent = "SharedState_close (fst (snd agent_open)) (snd (snd agent_open))"
  let ?owner = "SharedState_close (fst (snd controller_create)) (snd (snd controller_create))"
  have a: "?agent = (fst ?agent, snd ?agent)" and b: "?owner = (fst ?owner, snd ?owner)"
    by simp_all
  have nm: "validateName DEVICE_CONFIG_SHM_NAME \<and>
      shm_names (snd (snd agent_open)) DEVICE_CONFIG_SHM_NAME \<noteq> None \<and>
      \<not> fail_shm_open no_faults \<and> \<not> fail_mmap no_faults"
    by (simp add: validateName_DEVICE_CONFIG agent_open_eq no_faults_def)
  from close_owner_gated [OF a] close_owner_gated [OF b] nm show ?thesis
    by (simp add: agent_open_eq controller_create_eq DEVICE_CONFIG_SHM_NAME_def)
qed

subsection \<open>The owner flag\<close>

text \<open>
  C6. Only \<open>create\<close> sets the owner flag: a successful \<open>create\<close> leaves it true, a
  successful \<open>open\<close> leaves it false, and a failed \<open>create\<close>, a failed \<open>open\<close> and
  \<open>close\<close> leave it as it was; a new handle is not owner. Hence after any sequence of
  calls on a new handle, with any faults, the flag is true exactly when the last call that
  attached the handle was a \<open>create\<close>.
\<close>

theorem owner_only_by_create:
  "(\<forall>r h' os'. SharedState_create tp flt h os name = (r, h', os') \<longrightarrow>
      is_owner h' = (if r = Success then True else is_owner h)) \<and>
   (\<forall>r h' os'. SharedState_open tp flt h os name = (r, h', os') \<longrightarrow>
      is_owner h' = (if r = Success then False else is_owner h)) \<and>
   (\<forall>h' os'. SharedState_close h os = (h', os') \<longrightarrow> is_owner h' = is_owner h) \<and>
   \<not> is_owner SharedState \<and>
   (\<forall>hr osr att. run tp os0 calls = (hr, osr, att) \<longrightarrow>
      (is_owner hr \<longleftrightarrow> att = Some By_create))"
proof -
  have "\<forall>hr osr att. run tp os0 calls = (hr, osr, att) \<longrightarrow>
      (is_owner hr \<longleftrightarrow> att = Some By_create)"
    using run_owner_inv [of tp os0 calls] by (auto simp: owner_inv_def)
  moreover have "\<not> is_owner SharedState"
    by (simp add: SharedState_def)
  ultimately show ?thesis
    using create_is_owner [of tp flt h os name] open_is_owner [of tp flt h os name]
      close_is_owner [of h os]
    by blast
qed

theorem owner_only_by_create_witness:
  "run DeviceConfigTable_type empty_os
     [Create DEVICE_CONFIG_SHM_NAME no_faults, Close, Open DEVICE_CONFIG_SHM_NAME no_faults]
     = (\<lparr> shm_fd = - 1, data_ptr = 0, is_owner = True, shm_name = DEVICE_CONFIG_SHM_NAME \<rparr>,
        \<lparr> shm_names = Map.empty,
          shm_objects = [\<lparr>obj_size = 100,
                           obj_data = DeviceConfigTable_ctor zeroed_DeviceConfigTable\<rparr>],
          open_fds = [], mappings = [] \<rparr>,
        Some By_create) \<and>
   is_owner (fst (run DeviceConfigTable_type empty_os
     [Create DEVICE_CONFIG_SHM_NAME no_faults, Close, Open DEVICE_CONFIG_SHM_NAME no_faults]))"
proof -
  let ?calls = "[Create DEVICE_CONFIG_SHM_NAME no_faults, Close,
                 Open DEVICE_CONFIG_SHM_NAME no_faults]"
  have r: "run DeviceConfigTable_type empty_os ?calls
     = (\<lparr> shm_fd = - 1, data_ptr = 0, is_owner = True, shm_name = DEVICE_CONFIG_SHM_NAME \<rparr>,
        \<lparr> shm_names = Map.empty,
          shm_objects = [\<lparr>obj_size = 100,
                           obj_data = DeviceConfigTable_ctor zeroed_DeviceConfigTable\<rparr>],
          open_fds = [], mappings = [] \<rparr>,
        Some By_create)"
    by (simp add: run_def create_unfold open_unfold SharedState_close_def cleanup_eq
        validateName_DEVICE_CONFIG validateName_nonempty no_faults_def DeviceConfigTable_type_def
        empty_os_def SharedState_def lowest_free_Nil)
  from owner_only_by_create [of DeviceConfigTable_type no_faults SharedState empty_os
      DEVICE_CONFIG_SHM_NAME empty_os ?calls] r
  show ?thesis by simp
qed

end
